theory Spec2Isabelle
  imports Main
begin

section \<open>Go values shared by the four Trove resources\<close>

text \<open>
  The resources of this provider (database instance, database, user, configuration
  group) are Go functions over a \<open>schema.ResourceData\<close> and a client handle. The model
  follows the later revisions of the two files that occur twice in the sources
  (\<open>src/unnamed/part_002\<close> for the configuration group, \<open>src/unnamed/part_003\<close> for
  the instance); \<open>resource_openstack_database.go\<close> and \<open>src/unnamed/part_001\<close> are the
  database and the user.

  A Go \<open>error\<close> is a value: gophercloud's typed 404, any other error with its message
  (what \<open>fmt.Errorf\<close> builds), and the two failures of the poll primitive. \<open>Panic\<close> is
  no error that a function returns: it stands for a run-time panic, after which the
  function returns nothing. It shares the type so that every operation has one type of
  outcome.
\<close>

datatype error =
    ErrDefault404
  | Error string
  | PollStatusError string
  | PollTimeoutError
  | Panic string

fun Error_msg :: "error \<Rightarrow> string" where
  "Error_msg ErrDefault404 = ''Resource not found''"
| "Error_msg (Error s) = s"
| "Error_msg (PollStatusError st) = ''unexpected state '' @ st"
| "Error_msg PollTimeoutError = ''timeout while waiting for state''"
| "Error_msg (Panic s) = ''panic: '' @ s"

text \<open>
  The panic of a type assertion \<open>page.(DBPage)\<close> on the nil page that \<open>AllPages\<close>
  returns beside an error.
\<close>

definition nil_page_assertion :: string where
  "nil_page_assertion = ''interface conversion: pagination.Page is nil''"

subsection \<open>strconv.Atoi\<close>

text \<open>
  \<open>strconv.Atoi\<close> of the Go library, on a 64-bit \<open>int\<close>: an optional sign, then at
  least one decimal digit and nothing else; a value outside the range of \<open>int\<close> is an
  error as well. \<open>None\<close> is \<open>err != nil\<close>.
\<close>

definition is_digit :: "char \<Rightarrow> bool" where
  "is_digit c = (48 \<le> (of_char c :: nat) \<and> (of_char c :: nat) \<le> 57)"

definition digit_val :: "char \<Rightarrow> nat" where
  "digit_val c = (of_char c :: nat) - 48"

fun parse_digits :: "nat \<Rightarrow> string \<Rightarrow> nat option" where
  "parse_digits n [] = Some n"
| "parse_digits n (c # cs) =
     (if is_digit c then parse_digits (n * 10 + digit_val c) cs else None)"

definition in_int_range :: "int \<Rightarrow> bool" where
  "in_int_range v = (- (2 ^ 63) \<le> v \<and> v < 2 ^ 63)"

fun Atoi :: "string \<Rightarrow> int option" where
  "Atoi [] = None"
| "Atoi (c # cs) =
     (let neg = (c = CHR ''-'');
          ds = (if c = CHR ''-'' \<or> c = CHR ''+'' then cs else c # cs)
      in if ds = [] then None
         else case parse_digits 0 ds of
                None \<Rightarrow> None
              | Some n \<Rightarrow>
                  (let v = (if neg then - int n else int n)
                   in if in_int_range v then Some v else None))"

section \<open>Configuration group: the create request\<close>

text \<open>
  The declared blocks of \<open>openstack_db_config_group\<close> and the options sent to
  \<open>configurations.Create\<close>. A configuration value travels as \<open>interface{}\<close>: a Go
  string or a Go int.
\<close>

record datastore_block =
  ds_version :: string
  ds_type :: string

record configuration_block =
  conf_name :: string
  conf_value :: string

datatype config_value = StringValue string | IntValue int

record configurations_DatastoreOpts =
  cds_Version :: string
  cds_Type :: string

record configurations_CreateOpts =
  cg_Name :: string
  cg_Description :: string
  cg_Datastore :: configurations_DatastoreOpts
  cg_Values :: "string \<rightharpoonup> config_value"

record ConfigGroupAttrs =
  cga_name :: string
  cga_description :: string
  cga_datastore :: "datastore_block list"
  cga_configuration :: "configuration_block list"

text \<open>
  The loop of \<open>resourceDbConfigGroupCreate\<close> over the declared \<open>configuration\<close> list
  (part_002, lines 113-130): a value that \<open>Atoi\<close> accepts is replaced by the int, and
  \<open>values[name] = value\<close> stores it, a later entry of the same name overwriting an
  earlier one.
\<close>

fun config_values :: "(string \<rightharpoonup> config_value) \<Rightarrow> configuration_block list
    \<Rightarrow> (string \<rightharpoonup> config_value)" where
  "config_values values [] = values"
| "config_values values (z # listSlice) =
     (let name = conf_name z;
          value = (case Atoi (conf_value z) of
                     Some valueInt \<Rightarrow> IntValue valueInt
                   | None \<Rightarrow> StringValue (conf_value z))
      in config_values (values(name \<mapsto> value)) listSlice)"

text \<open>
  The request of \<open>resourceDbConfigGroupCreate\<close> (part_002, lines 95-132).
  \<open>d.GetOk\<close> is false on an empty list, which leaves the zero value.
\<close>

definition configGroupCreateOpts :: "ConfigGroupAttrs \<Rightarrow> configurations_CreateOpts" where
  "configGroupCreateOpts a =
     (let datastore = (case cga_datastore a of
                         [] \<Rightarrow> \<lparr> cds_Version = '''', cds_Type = '''' \<rparr>
                       | pV # _ \<Rightarrow> \<lparr> cds_Version = ds_version pV, cds_Type = ds_type pV \<rparr>);
          values = config_values Map.empty (cga_configuration a)
      in \<lparr> cg_Name = cga_name a, cg_Description = cga_description a,
           cg_Datastore = datastore, cg_Values = values \<rparr>)"

section \<open>Resource data and the client handle\<close>

text \<open>
  \<open>schema.ResourceData\<close>: the persisted identifier and the declared attributes of one
  resource, typed as the schema of its kind types them. \<open>meta.(*Config)\<close> yields the
  client or the error of its construction; the \<open>region\<close> attribute only feeds that
  construction (through \<open>GetRegion\<close>) and is left to it.
\<close>

record 'a ResourceData =
  rd_Id :: string
  rd_attrs :: 'a

definition SetId :: "string \<Rightarrow> 'a ResourceData \<Rightarrow> 'a ResourceData" where
  "SetId v d = d\<lparr> rd_Id := v \<rparr>"

record 'c Config =
  databaseInstanceClient :: "error + 'c"

text \<open>
  Modelled from the spec: \<open>CheckDeleted\<close> is a helper of this provider that is not
  among the sources. Sections 4.2 and 7 give its contract: on Read a not-found error is
  no failure, the object is dropped from the tracked state (its identifier is cleared);
  any other error is returned to the caller.
\<close>

definition CheckDeleted :: "'a ResourceData \<Rightarrow> error \<Rightarrow> string
    \<Rightarrow> 'a ResourceData \<times> error option" where
  "CheckDeleted d err msg =
     (if err = ErrDefault404 then (SetId '''' d, None)
      else (d, Some (Error (msg @ '': '' @ Error_msg err))))"

section \<open>The poll primitive\<close>

text \<open>
  \<open>resource.StateChangeConf\<close> with the fields the resources set. \<open>Refresh\<close> is the
  probe: given what the remote answers at one tick (\<open>'w\<close>) it returns the Go triple
  \<open>(interface{}, string, error)\<close>. The cadence (\<open>Delay\<close>, \<open>MinTimeout\<close>) and the
  \<open>Timeout\<close> are wall-clock values; here the remote is the list of its answers to the
  successive probes that fit into the timeout, so the end of the list is the timeout.
\<close>

record ('w, 'r) StateChangeConf =
  Pending :: "string list"
  Target :: "string list"
  Refresh :: "'w \<Rightarrow> 'r option \<times> string \<times> error option"

definition absent_sentinel :: "string list \<Rightarrow> string option" where
  "absent_sentinel target = find (\<lambda>s. s = ''deleted'' \<or> s = ''DELETED'') target"

text \<open>
  Modelled from the spec: \<open>WaitForState\<close> belongs to the vendored Terraform helper
  library, which is not among the sources. Section 4.1: invoke the probe; a state in
  \<open>Target\<close> succeeds on the same tick; a state in \<open>Pending\<close> sleeps and probes again;
  a not-found signal succeeds when \<open>Target\<close> holds the absent sentinel; any other
  state, or an error of the probe, fails at once; running out of time is a timeout
  error of its own.
\<close>

fun WaitForState :: "('w, 'r) StateChangeConf \<Rightarrow> 'w list \<Rightarrow> error + ('r option \<times> string)" where
  "WaitForState conf [] = Inl PollTimeoutError"
| "WaitForState conf (w # ws) =
     (case Refresh conf w of
        (res, currentState, Some err) \<Rightarrow>
          (case (if err = ErrDefault404 then absent_sentinel (Target conf) else None) of
             Some gone \<Rightarrow> Inr (res, gone)
           | None \<Rightarrow> Inl err)
      | (res, currentState, None) \<Rightarrow>
          if currentState \<in> set (Target conf) then Inr (res, currentState)
          else if currentState \<in> set (Pending conf) then WaitForState conf ws
          else Inl (PollStatusError currentState))"

section \<open>Database instance\<close>

record network_block =
  nb_uuid :: string
  nb_port :: string
  nb_fixed_ip_v4 :: string
  nb_fixed_ip_v6 :: string

record database_block =
  dbb_name :: string
  dbb_charset :: string
  dbb_collate :: string

record user_block =
  ub_name :: string
  ub_password :: string
  ub_host :: string
  ub_databases :: "string list"

record InstanceAttrs =
  ia_name :: string
  ia_flavor_id :: string
  ia_size :: int
  ia_datastore :: "datastore_block list"
  ia_network :: "network_block list"
  ia_database :: "database_block list"
  ia_user :: "user_block list"

record instances_DatastoreOpts =
  ids_Version :: string
  ids_Type :: string

record instances_NetworkOpts =
  net_UUID :: string
  net_Port :: string
  net_V4FixedIP :: string
  net_V6FixedIP :: string

record databases_CreateOpts =
  dbo_Name :: string
  dbo_CharSet :: string
  dbo_Collate :: string

record users_CreateOpts =
  uo_Name :: string
  uo_Password :: string
  uo_Databases :: "databases_CreateOpts list"
  uo_Host :: string

record instances_CreateOpts =
  io_FlavorRef :: string
  io_Name :: string
  io_Size :: int
  io_Datastore :: instances_DatastoreOpts
  io_Networks :: "instances_NetworkOpts list"
  io_Databases :: "databases_CreateOpts list"
  io_Users :: "users_CreateOpts list"

text \<open>
  \<open>instances.Instance\<close>, with the fields the resource reads. \<open>Flavor\<close> and
  \<open>Datastore\<close> are structs in gophercloud; the flavor is kept here by its id.
\<close>

record Instance =
  inst_ID :: string
  inst_Name :: string
  inst_Status :: string
  inst_Flavor :: string
  inst_Datastore :: datastore_block

text \<open>
  What the remote answers to the calls of one operation on an instance: the create
  request, the \<open>Get\<close> of Read, the \<open>Get\<close> of each probe of a poll, the delete request.
\<close>

record InstanceClient =
  instances_Create :: "instances_CreateOpts \<Rightarrow> error + Instance"
  instances_Get :: "string \<Rightarrow> error + Instance"
  instances_Get_poll :: "string \<Rightarrow> (error + Instance) list"
  instances_Delete :: "string \<Rightarrow> error option"

fun getDatabases :: "string list \<Rightarrow> databases_CreateOpts list" where
  "getDatabases [] = []"
| "getDatabases (db # v) =
     \<lparr> dbo_Name = db, dbo_CharSet = '''', dbo_Collate = '''' \<rparr> # getDatabases v"

text \<open>
  The request that \<open>resourceDatabaseInstanceCreate\<close> builds (part_003, lines
  168-230). Each nested list is read through \<open>(p.([]interface{}))[0]\<close>, behind
  \<open>d.GetOk\<close>, which is false on the empty list.
\<close>

definition instanceCreateOpts :: "InstanceAttrs \<Rightarrow> instances_CreateOpts" where
  "instanceCreateOpts a =
     (let datastore = (case ia_datastore a of
                         [] \<Rightarrow> \<lparr> ids_Version = '''', ids_Type = '''' \<rparr>
                       | pV # _ \<Rightarrow> \<lparr> ids_Version = ds_version pV, ids_Type = ds_type pV \<rparr>);
          networks = (case ia_network a of
                        [] \<Rightarrow> []
                      | pV # _ \<Rightarrow> [\<lparr> net_UUID = nb_uuid pV, net_Port = nb_port pV,
                                    net_V4FixedIP = nb_fixed_ip_v4 pV,
                                    net_V6FixedIP = nb_fixed_ip_v6 pV \<rparr>]);
          dbs = (case ia_database a of
                   [] \<Rightarrow> []
                 | pV # _ \<Rightarrow> [\<lparr> dbo_Name = dbb_name pV, dbo_CharSet = dbb_charset pV,
                               dbo_Collate = dbb_collate pV \<rparr>]);
          users_list = (case ia_user a of
                          [] \<Rightarrow> []
                        | pV # _ \<Rightarrow> [\<lparr> uo_Name = ub_name pV, uo_Password = ub_password pV,
                                      uo_Databases = getDatabases (ub_databases pV),
                                      uo_Host = ub_host pV \<rparr>])
      in \<lparr> io_FlavorRef = ia_flavor_id a, io_Name = ia_name a, io_Size = ia_size a,
           io_Datastore = datastore, io_Networks = networks, io_Databases = dbs,
           io_Users = users_list \<rparr>)"

definition InstanceStateRefreshFunc :: "error + Instance
    \<Rightarrow> Instance option \<times> string \<times> error option" where
  "InstanceStateRefreshFunc got =
     (case got of
        Inl err \<Rightarrow>
          if err = ErrDefault404 then (None, ''deleted'', None) else (None, '''', Some err)
      | Inr i \<Rightarrow>
          if inst_Status i = ''error''
          then (Some i, inst_Status i, Some (Error ''There was an error creating the instance.''))
          else (Some i, inst_Status i, None))"

text \<open>The two \<open>StateChangeConf\<close> literals of the instance: create and delete.\<close>

definition instanceCreateConf :: "(error + Instance, Instance) StateChangeConf" where
  "instanceCreateConf =
     \<lparr> Pending = [''BUILD''], Target = [''ACTIVE''], Refresh = InstanceStateRefreshFunc \<rparr>"

definition instanceDeleteConf :: "(error + Instance, Instance) StateChangeConf" where
  "instanceDeleteConf =
     \<lparr> Pending = [''ACTIVE'', ''SHUTOFF''], Target = [''deleted''],
       Refresh = InstanceStateRefreshFunc \<rparr>"

text \<open>
  \<open>resourceDatabaseInstanceRead\<close> hands \<open>d.Set\<close> the structs \<open>instance.Flavor\<close> and
  \<open>instance.Datastore\<close> for the string \<open>flavor_id\<close> and the list \<open>datastore\<close>. \<open>d.Set\<close>
  fails on both and its error is not read: of the attributes modelled here, Read
  refreshes \<open>name\<close> only.
\<close>

definition resourceDatabaseInstanceRead :: "InstanceAttrs ResourceData \<Rightarrow> InstanceClient Config
    \<Rightarrow> InstanceAttrs ResourceData \<times> error option" where
  "resourceDatabaseInstanceRead d meta =
     (case databaseInstanceClient meta of
        Inl err \<Rightarrow>
          (d, Some (Error (''Error creating OpenStack cloud database client: '' @ Error_msg err)))
      | Inr client \<Rightarrow>
          (case instances_Get client (rd_Id d) of
             Inl err \<Rightarrow> CheckDeleted d err ''instance''
           | Inr instance \<Rightarrow>
               (d\<lparr> rd_attrs := (rd_attrs d)\<lparr> ia_name := inst_Name instance \<rparr> \<rparr>, None)))"

definition resourceDatabaseInstanceCreate :: "InstanceAttrs ResourceData \<Rightarrow> InstanceClient Config
    \<Rightarrow> InstanceAttrs ResourceData \<times> error option" where
  "resourceDatabaseInstanceCreate d meta =
     (case databaseInstanceClient meta of
        Inl err \<Rightarrow> (d, Some (Error (''Error creating cloud database client: '' @ Error_msg err)))
      | Inr client \<Rightarrow>
          (case instances_Create client (instanceCreateOpts (rd_attrs d)) of
             Inl err \<Rightarrow>
               (d, Some (Error (''Error creating cloud database instance: '' @ Error_msg err)))
           | Inr instance \<Rightarrow>
               (let stateConf = instanceCreateConf
                in case WaitForState stateConf (instances_Get_poll client (inst_ID instance)) of
                     Inl err \<Rightarrow>
                       (d, Some (Error (''Error waiting for instance ('' @ inst_ID instance
                                        @ '') to become ready: '' @ Error_msg err)))
                   | Inr _ \<Rightarrow>
                       resourceDatabaseInstanceRead (SetId (inst_ID instance) d) meta)))"

definition resourceDatabaseInstanceDelete :: "InstanceAttrs ResourceData \<Rightarrow> InstanceClient Config
    \<Rightarrow> InstanceAttrs ResourceData \<times> error option" where
  "resourceDatabaseInstanceDelete d meta =
     (case databaseInstanceClient meta of
        Inl err \<Rightarrow> (d, Some (Error (''Error creating RS cloud instance client: '' @ Error_msg err)))
      | Inr client \<Rightarrow>
          (case instances_Delete client (rd_Id d) of
             Some err \<Rightarrow>
               (d, Some (Error (''Error deleting cloud database instance: '' @ Error_msg err)))
           | None \<Rightarrow>
               (let stateConf = instanceDeleteConf
                in case WaitForState stateConf (instances_Get_poll client (rd_Id d)) of
                     Inl err \<Rightarrow>
                       (d, Some (Error (''Error waiting for instance ('' @ rd_Id d
                                        @ '') to delete: '' @ Error_msg err)))
                   | Inr _ \<Rightarrow> (SetId '''' d, None))))"

section \<open>Configuration group\<close>

text \<open>\<open>configurations.Config\<close>, the decoded group; it has no status field.\<close>

record configurations_Config =
  cfg_Created :: string
  cfg_Updated :: string
  cfg_DatastoreName :: string
  cfg_DatastoreVersionID :: string
  cfg_DatastoreVersionName :: string
  cfg_Description :: string
  cfg_ID :: string
  cfg_Name :: string
  cfg_Values :: "string \<rightharpoonup> config_value"

text \<open>
  Modelled from the spec: the declaration of \<open>configurations.Get\<close> and of its result
  is in gophercloud, not among the sources. Section 3 gives every managed object one
  lifecycle state that the remote system reports; the answer of the remote to a
  \<open>Get\<close> of a group is that state beside the attributes, and \<open>Extract\<close> decodes the
  attributes only.
\<close>

record configuration_payload =
  pl_status :: string
  pl_config :: configurations_Config

definition configurations_Extract :: "error + configuration_payload
    \<Rightarrow> error + configurations_Config" where
  "configurations_Extract r = (case r of Inl err \<Rightarrow> Inl err | Inr p \<Rightarrow> Inr (pl_config p))"

record ConfigGroupClient =
  configurations_Create :: "configurations_CreateOpts \<Rightarrow> error + configurations_Config"
  configurations_Get :: "string \<Rightarrow> error + configuration_payload"
  configurations_Get_poll :: "string \<Rightarrow> (error + configuration_payload) list"
  configurations_Delete :: "string \<Rightarrow> error option"

definition DbConfigGroupStateRefreshFunc :: "error + configurations_Config
    \<Rightarrow> configurations_Config option \<times> string \<times> error option" where
  "DbConfigGroupStateRefreshFunc got =
     (case got of
        Inl err \<Rightarrow>
          if err = ErrDefault404 then (None, ''DELETED'', None) else (None, '''', Some err)
      | Inr i \<Rightarrow> (Some i, ''ACTIVE'', None))"

text \<open>
  The two \<open>StateChangeConf\<close> literals of the group. The probe closes over the client
  and the id; at a tick it is \<open>configurations.Get(client, cgroupID).Extract()\<close> followed
  by the body of the closure.
\<close>

definition configGroupCreateConf ::
    "(error + configuration_payload, configurations_Config) StateChangeConf" where
  "configGroupCreateConf =
     \<lparr> Pending = [''BUILD''], Target = [''ACTIVE''],
       Refresh = (\<lambda>w. DbConfigGroupStateRefreshFunc (configurations_Extract w)) \<rparr>"

definition configGroupDeleteConf ::
    "(error + configuration_payload, configurations_Config) StateChangeConf" where
  "configGroupDeleteConf =
     \<lparr> Pending = [''ACTIVE'', ''SHUTOFF''], Target = [''DELETED''],
       Refresh = (\<lambda>w. DbConfigGroupStateRefreshFunc (configurations_Extract w)) \<rparr>"

definition resourceDbConfigGroupRead :: "ConfigGroupAttrs ResourceData
    \<Rightarrow> ConfigGroupClient Config \<Rightarrow> ConfigGroupAttrs ResourceData \<times> error option" where
  "resourceDbConfigGroupRead d meta =
     (case databaseInstanceClient meta of
        Inl err \<Rightarrow>
          (d, Some (Error (''Error creating OpenStack cloud database client: '' @ Error_msg err)))
      | Inr client \<Rightarrow>
          (case configurations_Extract (configurations_Get client (rd_Id d)) of
             Inl err \<Rightarrow> CheckDeleted d err ''configuration''
           | Inr cgroup \<Rightarrow>
               (d\<lparr> rd_attrs := (rd_attrs d)\<lparr> cga_name := cfg_Name cgroup,
                                            cga_description := cfg_Description cgroup \<rparr> \<rparr>,
                None)))"

definition resourceDbConfigGroupCreate :: "ConfigGroupAttrs ResourceData
    \<Rightarrow> ConfigGroupClient Config \<Rightarrow> ConfigGroupAttrs ResourceData \<times> error option" where
  "resourceDbConfigGroupCreate d meta =
     (case databaseInstanceClient meta of
        Inl err \<Rightarrow> (d, Some (Error (''Error creating cloud database client: '' @ Error_msg err)))
      | Inr client \<Rightarrow>
          (case configurations_Create client (configGroupCreateOpts (rd_attrs d)) of
             Inl err \<Rightarrow>
               (d, Some (Error (''Error creating cloud database configuration: ''
                                @ Error_msg err)))
           | Inr cgroup \<Rightarrow>
               (let stateConf = configGroupCreateConf
                in case WaitForState stateConf (configurations_Get_poll client (cfg_ID cgroup)) of
                     Inl err \<Rightarrow>
                       (d, Some (Error (''Error waiting for configuration ('' @ cfg_ID cgroup
                                        @ '') to become ready: '' @ Error_msg err)))
                   | Inr _ \<Rightarrow> resourceDbConfigGroupRead (SetId (cfg_ID cgroup) d) meta)))"

definition resourceDbConfigGroupDelete :: "ConfigGroupAttrs ResourceData
    \<Rightarrow> ConfigGroupClient Config \<Rightarrow> ConfigGroupAttrs ResourceData \<times> error option" where
  "resourceDbConfigGroupDelete d meta =
     (case databaseInstanceClient meta of
        Inl err \<Rightarrow> (d, Some (Error (''Error creating RS cloud instance client: '' @ Error_msg err)))
      | Inr client \<Rightarrow>
          (case configurations_Delete client (rd_Id d) of
             Some err \<Rightarrow> (d, Some (Error (''Error deleting cloud configuration: '' @ Error_msg err)))
           | None \<Rightarrow>
               (let stateConf = configGroupDeleteConf
                in case WaitForState stateConf (configurations_Get_poll client (rd_Id d)) of
                     Inl err \<Rightarrow>
                       (d, Some (Error (''Error waiting for configuration ('' @ rd_Id d
                                        @ '') to delete: '' @ Error_msg err)))
                   | Inr _ \<Rightarrow> (SetId '''' d, None))))"

section \<open>Database\<close>

text \<open>
  A database has no \<open>Get\<close> of its own: every call site lists the databases of the
  parent instance. One listing is the pair of the results of \<open>AllPages\<close> and of
  \<open>ExtractDBs\<close> (\<open>ExtractUsers\<close> for users); the second is what the extraction
  yields from the pages of a successful \<open>AllPages\<close>.
\<close>

record 'r Listing =
  AllPages_err :: "error option"
  Extracted :: "error + 'r list"

record Database =
  db_Name :: string
  db_CharSet :: string
  db_Collate :: string

record DatabaseAttrs =
  da_name :: string
  da_instance :: string
  da_charset :: string
  da_collate :: string

record DatabaseClient =
  databases_Create :: "string \<Rightarrow> databases_CreateOpts list \<Rightarrow> error option"
  databases_List :: "string \<Rightarrow> Database Listing"
  databases_List_poll :: "string \<Rightarrow> Database Listing list"
  databases_Delete :: "string \<Rightarrow> string \<Rightarrow> error option"

definition DatabaseStateRefreshFunc :: "string \<Rightarrow> Database Listing
    \<Rightarrow> Database option \<times> string \<times> error option" where
  "DatabaseStateRefreshFunc dbname listing =
     (case AllPages_err listing of
        Some err \<Rightarrow>
          (None, '''', Some (Error (''Unable to retrieve databases, pageszzz: '' @ Error_msg err)))
      | None \<Rightarrow>
          (case Extracted listing of
             Inl err \<Rightarrow>
               (None, '''',
                Some (Error (''Unable to retrieve databases, extract: '' @ Error_msg err)))
           | Inr allDatabases \<Rightarrow>
               (case find (\<lambda>v. db_Name v = dbname) allDatabases of
                  Some v \<Rightarrow> (Some v, ''ACTIVE'', None)
                | None \<Rightarrow>
                    (None, '''',
                     Some (Error (''Error retrieving database '' @ dbname @ '' status''))))))"

definition databaseCreateConf :: "string \<Rightarrow> (Database Listing, Database) StateChangeConf" where
  "databaseCreateConf dbname =
     \<lparr> Pending = [''BUILD''], Target = [''ACTIVE''],
       Refresh = DatabaseStateRefreshFunc dbname \<rparr>"

definition resourceDatabaseRead :: "DatabaseAttrs ResourceData \<Rightarrow> DatabaseClient Config
    \<Rightarrow> DatabaseAttrs ResourceData \<times> error option" where
  "resourceDatabaseRead d meta =
     (case databaseInstanceClient meta of
        Inl err \<Rightarrow>
          (d, Some (Error (''Error creating OpenStack cloud database client: '' @ Error_msg err)))
      | Inr client \<Rightarrow>
          (let dbname = da_name (rd_attrs d);
               listing = databases_List client (rd_Id d)
           in case AllPages_err listing of
                Some err \<Rightarrow>
                  (d, Some (Error (''Unable to retrieve databases, pages: '' @ Error_msg err)))
              | None \<Rightarrow>
                  (case Extracted listing of
                     Inl err \<Rightarrow>
                       (d, Some (Error (''Unable to retrieve databases, extract: ''
                                        @ Error_msg err)))
                   | Inr allDatabases \<Rightarrow>
                       (case find (\<lambda>v. db_Name v = dbname) allDatabases of
                          Some v \<Rightarrow>
                            (d\<lparr> rd_attrs := (rd_attrs d)\<lparr> da_name := db_Name v,
                                                         da_charset := db_CharSet v,
                                                         da_collate := db_Collate v \<rparr> \<rparr>,
                             None)
                        | None \<Rightarrow> (d, None)))))"

text \<open>
  In \<open>resourceDatabaseCreate\<close> the result of \<open>databases.Create\<close> is not bound to any
  variable: \<open>created\<close> below is that result, and nothing reads it.
\<close>

definition resourceDatabaseCreate :: "DatabaseAttrs ResourceData \<Rightarrow> DatabaseClient Config
    \<Rightarrow> DatabaseAttrs ResourceData \<times> error option" where
  "resourceDatabaseCreate d meta =
     (case databaseInstanceClient meta of
        Inl err \<Rightarrow> (d, Some (Error (''Error creating cloud database client: '' @ Error_msg err)))
      | Inr client \<Rightarrow>
          (let dbname = da_name (rd_attrs d);
               dbs = [\<lparr> dbo_Name = dbname, dbo_CharSet = da_charset (rd_attrs d),
                        dbo_Collate = da_collate (rd_attrs d) \<rparr>];
               instance_id = da_instance (rd_attrs d);
               created = databases_Create client instance_id dbs;
               stateConf = databaseCreateConf dbname
           in case WaitForState stateConf (databases_List_poll client instance_id) of
                Inl err \<Rightarrow>
                  (d, Some (Error (''Error waiting for database ('' @ Error_msg err
                                   @ '') to become ready'')))
              | Inr _ \<Rightarrow> resourceDatabaseRead (SetId instance_id d) meta))"

text \<open>
  In \<open>resourceDatabaseDelete\<close> the error of \<open>AllPages\<close> is overwritten by the one of
  \<open>ExtractDBs\<close> before it is tested. When \<open>AllPages\<close> has failed, its page is nil, and
  \<open>ExtractDBs\<close> panics on it. \<open>dbExists\<close> only decides a log line, and the result of
  \<open>databases.Delete\<close> (\<open>deleted\<close> below) is not bound.
\<close>

definition resourceDatabaseDelete :: "DatabaseAttrs ResourceData \<Rightarrow> DatabaseClient Config
    \<Rightarrow> DatabaseAttrs ResourceData \<times> error option" where
  "resourceDatabaseDelete d meta =
     (case databaseInstanceClient meta of
        Inl err \<Rightarrow>
          (d, Some (Error (''Error creating OpenStack cloud database client: '' @ Error_msg err)))
      | Inr client \<Rightarrow>
          (let dbname = da_name (rd_attrs d);
               listing = databases_List client (rd_Id d)
           in case AllPages_err listing of
                Some ignored \<Rightarrow> (d, Some (Panic nil_page_assertion))
              | None \<Rightarrow>
                  (case Extracted listing of
                     Inl err \<Rightarrow>
                       (d, Some (Error (''Unable to retrieve databases: '' @ Error_msg err)))
                   | Inr allDatabases \<Rightarrow>
                       (let dbExists = (find (\<lambda>v. db_Name v = dbname) allDatabases \<noteq> None);
                            deleted = databases_Delete client (rd_Id d) dbname
                        in (SetId '''' d, None)))))"

section \<open>User\<close>

record User =
  usr_Name :: string
  usr_Password :: string
  usr_Databases :: "Database list"

record UserAttrs =
  ua_name :: string
  ua_instance :: string
  ua_password :: string
  ua_host :: string
  ua_databases :: "string list"

record UserClient =
  users_Create :: "string \<Rightarrow> users_CreateOpts list \<Rightarrow> error option"
  users_List :: "string \<Rightarrow> User Listing"
  users_List_poll :: "string \<Rightarrow> User Listing list"
  users_Delete :: "string \<Rightarrow> string \<Rightarrow> error option"

definition DbUserStateRefreshFunc :: "string \<Rightarrow> User Listing
    \<Rightarrow> User option \<times> string \<times> error option" where
  "DbUserStateRefreshFunc username listing =
     (case AllPages_err listing of
        Some err \<Rightarrow>
          (None, '''', Some (Error (''Unable to retrieve users, pages: '' @ Error_msg err)))
      | None \<Rightarrow>
          (case Extracted listing of
             Inl err \<Rightarrow>
               (None, '''', Some (Error (''Unable to retrieve users, extract: '' @ Error_msg err)))
           | Inr allUsers \<Rightarrow>
               (case find (\<lambda>v. usr_Name v = username) allUsers of
                  Some v \<Rightarrow> (Some v, ''ACTIVE'', None)
                | None \<Rightarrow>
                    (None, '''',
                     Some (Error (''Error retrieving user '' @ username @ '' status''))))))"

definition userCreateConf :: "string \<Rightarrow> (User Listing, User) StateChangeConf" where
  "userCreateConf username =
     \<lparr> Pending = [''BUILD''], Target = [''ACTIVE''],
       Refresh = DbUserStateRefreshFunc username \<rparr>"



definition resourceDbUserDelete :: "UserAttrs ResourceData \<Rightarrow> UserClient Config
    \<Rightarrow> UserAttrs ResourceData \<times> error option" where
  "resourceDbUserDelete d meta =
     (case databaseInstanceClient meta of
        Inl err \<Rightarrow>
          (d, Some (Error (''Error creating OpenStack cloud database client: '' @ Error_msg err)))
      | Inr client \<Rightarrow>
          (let username = ua_name (rd_attrs d);
               listing = users_List client (rd_Id d)
           in case AllPages_err listing of
                Some ignored \<Rightarrow> (d, Some (Panic nil_page_assertion))
              | None \<Rightarrow>
                  (case Extracted listing of
                     Inl err \<Rightarrow> (d, Some (Error (''Unable to retrieve users: '' @ Error_msg err)))
                   | Inr allUsers \<Rightarrow>
                       (let userExists = (find (\<lambda>v. usr_Name v = username) allUsers \<noteq> None);
                            deleted = users_Delete client (rd_Id d) username
                        in (SetId '''' d, None)))))"

section \<open>Properties\<close>

lemma config_values_untouched:
  "name \<notin> conf_name ` set zs \<Longrightarrow> config_values vals zs name = vals name"
  by (induction zs arbitrary: vals) (auto simp: Let_def)

lemma config_values_last:
  assumes "i < length zs"
    and "\<forall>j. i < j \<and> j < length zs \<longrightarrow> conf_name (zs ! j) \<noteq> conf_name (zs ! i)"
  shows "config_values vals zs (conf_name (zs ! i)) =
           Some (case Atoi (conf_value (zs ! i)) of
                   Some n \<Rightarrow> IntValue n
                 | None \<Rightarrow> StringValue (conf_value (zs ! i)))"
  using assms
proof (induction zs arbitrary: vals i)
  case Nil
  then show ?case by simp
next
  case (Cons z zs)
  show ?case
  proof (cases i)
    case 0
    have fresh: "conf_name z \<notin> conf_name ` set zs"
    proof
      assume "conf_name z \<in> conf_name ` set zs"
      then obtain k where k: "k < length zs" "conf_name (zs ! k) = conf_name z"
        by (auto simp: in_set_conv_nth)
      with Cons.prems(2) 0 have "conf_name ((z # zs) ! Suc k) \<noteq> conf_name ((z # zs) ! 0)"
        by (metis length_Cons not_less_eq zero_less_Suc)
      with k show False by simp
    qed
    show ?thesis
      unfolding 0 using fresh
      by (simp add: Let_def config_values_untouched split: option.split)
  next
    case (Suc i')
    have len: "i' < length zs" using Cons.prems(1) Suc by simp
    have later: "\<forall>j. i' < j \<and> j < length zs \<longrightarrow> conf_name (zs ! j) \<noteq> conf_name (zs ! i')"
    proof (intro allI impI)
      fix j assume "i' < j \<and> j < length zs"
      then have "i < Suc j \<and> Suc j < length (z # zs)" using Suc by simp
      with Cons.prems(2) have "conf_name ((z # zs) ! Suc j) \<noteq> conf_name ((z # zs) ! i)"
        by blast
      then show "conf_name (zs ! j) \<noteq> conf_name (zs ! i')" using Suc by simp
    qed
    show ?thesis
      unfolding Suc using Cons.IH [OF len later]
      by (simp add: Let_def split: option.split)
  qed
qed

lemma config_values_origin:
  "config_values vals zs n = Some v \<Longrightarrow>
     vals n = Some v \<or>
     (\<exists>z \<in> set zs. conf_name z = n \<and>
        v = (case Atoi (conf_value z) of
               Some k \<Rightarrow> IntValue k
             | None \<Rightarrow> StringValue (conf_value z)))"
proof (induction zs arbitrary: vals)
  case Nil
  then show ?case by simp
next
  case (Cons z zs)
  let ?coerced = "case Atoi (conf_value z) of
                    Some k \<Rightarrow> IntValue k
                  | None \<Rightarrow> StringValue (conf_value z)"
  from Cons.prems have "config_values (vals(conf_name z \<mapsto> ?coerced)) zs n = Some v"
    by (simp add: Let_def)
  from Cons.IH [OF this] show ?case
    by (auto split: if_splits)
qed

subsection \<open>Configuration values\<close>

text \<open>
  C7, as stated, fails when a name is declared twice: \<open>max_connections\<close> is declared
  as \<open>5\<close> and, further down, as \<open>many\<close>. The payload is a map keyed by name; the
  second assignment overwrites the first, and the declared \<open>5\<close> is not carried at
  all.
\<close>

theorem config_value_coercion_counterexample:
  "cg_Values (configGroupCreateOpts
       \<lparr> cga_name = ''g'', cga_description = '''',
         cga_datastore = [\<lparr> ds_version = ''5.6'', ds_type = ''mysql'' \<rparr>],
         cga_configuration =
           [\<lparr> conf_name = ''max_connections'', conf_value = ''5'' \<rparr>,
            \<lparr> conf_name = ''max_connections'', conf_value = ''many'' \<rparr>] \<rparr>)
     ''max_connections'' = Some (StringValue ''many'')"
  by (simp add: configGroupCreateOpts_def Let_def is_digit_def digit_val_def in_int_range_def)

text \<open>
  C7, amended. Every declared configuration value whose name is not declared again
  further down the list reaches the payload of the create request under its name: as
  the Go int when \<open>strconv.Atoi\<close> accepts the declared string, as the declared string
  itself otherwise. And for any list, whatever the payload carries under a name is a
  declared value of that name, coerced in this way.
\<close>

theorem config_value_coercion:
  "(i < length (cga_configuration a) \<longrightarrow>
    (\<forall>j. i < j \<and> j < length (cga_configuration a) \<longrightarrow>
           conf_name (cga_configuration a ! j) \<noteq> conf_name (cga_configuration a ! i)) \<longrightarrow>
    cg_Values (configGroupCreateOpts a) (conf_name (cga_configuration a ! i)) =
      Some (case Atoi (conf_value (cga_configuration a ! i)) of
              Some n \<Rightarrow> IntValue n
            | None \<Rightarrow> StringValue (conf_value (cga_configuration a ! i))))
   \<and> (cg_Values (configGroupCreateOpts a) name = Some v \<longrightarrow>
      (\<exists>z \<in> set (cga_configuration a). conf_name z = name \<and>
         v = (case Atoi (conf_value z) of
                Some n \<Rightarrow> IntValue n
              | None \<Rightarrow> StringValue (conf_value z))))"
proof (intro conjI impI)
  assume "i < length (cga_configuration a)"
    and "\<forall>j. i < j \<and> j < length (cga_configuration a) \<longrightarrow>
           conf_name (cga_configuration a ! j) \<noteq> conf_name (cga_configuration a ! i)"
  from config_values_last [OF this]
  show "cg_Values (configGroupCreateOpts a) (conf_name (cga_configuration a ! i)) =
      Some (case Atoi (conf_value (cga_configuration a ! i)) of
              Some n \<Rightarrow> IntValue n
            | None \<Rightarrow> StringValue (conf_value (cga_configuration a ! i)))"
    by (simp add: configGroupCreateOpts_def Let_def)
next
  assume "cg_Values (configGroupCreateOpts a) name = Some v"
  then have "config_values Map.empty (cga_configuration a) name = Some v"
    by (simp add: configGroupCreateOpts_def Let_def)
  from config_values_origin [OF this]
  show "\<exists>z \<in> set (cga_configuration a). conf_name z = name \<and>
         v = (case Atoi (conf_value z) of
                Some n \<Rightarrow> IntValue n
              | None \<Rightarrow> StringValue (conf_value z))"
    by simp
qed

theorem config_value_coercion_witness:
  "cg_Values (configGroupCreateOpts
       \<lparr> cga_name = ''g'', cga_description = '''',
         cga_datastore = [\<lparr> ds_version = ''5.6'', ds_type = ''mysql'' \<rparr>],
         cga_configuration =
           [\<lparr> conf_name = ''max_connections'', conf_value = ''5'' \<rparr>,
            \<lparr> conf_name = ''collation_server'', conf_value = ''latin1_swedish_ci'' \<rparr>] \<rparr>)
     ''max_connections'' = Some (IntValue 5)
   \<and> cg_Values (configGroupCreateOpts
       \<lparr> cga_name = ''g'', cga_description = '''',
         cga_datastore = [\<lparr> ds_version = ''5.6'', ds_type = ''mysql'' \<rparr>],
         cga_configuration =
           [\<lparr> conf_name = ''max_connections'', conf_value = ''5'' \<rparr>,
            \<lparr> conf_name = ''collation_server'', conf_value = ''latin1_swedish_ci'' \<rparr>] \<rparr>)
     ''collation_server'' = Some (StringValue ''latin1_swedish_ci'')"
proof -
  let ?a = "\<lparr> cga_name = ''g'', cga_description = '''',
         cga_datastore = [\<lparr> ds_version = ''5.6'', ds_type = ''mysql'' \<rparr>],
         cga_configuration =
           [\<lparr> conf_name = ''max_connections'', conf_value = ''5'' \<rparr>,
            \<lparr> conf_name = ''collation_server'', conf_value = ''latin1_swedish_ci'' \<rparr>] \<rparr>"
  have len0: "0 < length (cga_configuration ?a)" and len1: "1 < length (cga_configuration ?a)"
    by simp_all
  have last0: "\<forall>j. 0 < j \<and> j < length (cga_configuration ?a) \<longrightarrow>
           conf_name (cga_configuration ?a ! j) \<noteq> conf_name (cga_configuration ?a ! 0)"
    by (auto simp: less_Suc_eq)
  have last1: "\<forall>j. 1 < j \<and> j < length (cga_configuration ?a) \<longrightarrow>
           conf_name (cga_configuration ?a ! j) \<noteq> conf_name (cga_configuration ?a ! 1)"
    by simp
  have five: "Atoi ''5'' = Some 5" and word: "Atoi ''latin1_swedish_ci'' = None"
    by (simp_all add: is_digit_def digit_val_def in_int_range_def)
  from config_value_coercion [where a = ?a and i = 0, THEN conjunct1, THEN mp, OF len0, THEN mp, OF last0]
    config_value_coercion [where a = ?a and i = 1, THEN conjunct1, THEN mp, OF len1, THEN mp, OF last1]
    five word
  show ?thesis by simp
qed

subsection \<open>The child-scan probe under the poll\<close>

lemma database_poll_first_probe:
  "WaitForState (databaseCreateConf dbname) (w # later) =
     (case DatabaseStateRefreshFunc dbname w of
        (res, st, Some err) \<Rightarrow> Inl err
      | (res, st, None) \<Rightarrow> Inr (res, ''ACTIVE''))"
  by (simp add: databaseCreateConf_def DatabaseStateRefreshFunc_def
      split: option.split sum.split)

lemma user_poll_first_probe:
  "WaitForState (userCreateConf username) (w # later) =
     (case DbUserStateRefreshFunc username w of
        (res, st, Some err) \<Rightarrow> Inl err
      | (res, st, None) \<Rightarrow> Inr (res, ''ACTIVE''))"
  by (simp add: userCreateConf_def DbUserStateRefreshFunc_def
      split: option.split sum.split)

text \<open>
  C1 at a failing input, the scenario of the spec: the parent lists no child at the
  first probe and lists the declared name at the second. A poll tick whose listing
  lacks the name should keep the poll alive, so that the poll succeeds on the second
  probe. The probes of the database and of the user return an error on such a tick
  instead of the pending state \<open>BUILD\<close> that their own \<open>StateChangeConf\<close> declares: the
  poll ends on the first tick with that error, and \<open>resourceDatabaseCreate\<close> returns
  the failure with the identifier still empty.
\<close>

theorem child_scan_poll_aborts_on_first_tick:
  "WaitForState (databaseCreateConf ''app'')
     [\<lparr> AllPages_err = None, Extracted = Inr [] \<rparr>,
      \<lparr> AllPages_err = None,
        Extracted = Inr [\<lparr> db_Name = ''app'', db_CharSet = '''', db_Collate = '''' \<rparr>] \<rparr>]
     = Inl (Error ''Error retrieving database app status'')
   \<and> WaitForState (userCreateConf ''bob'')
     [\<lparr> AllPages_err = None, Extracted = Inr [] \<rparr>,
      \<lparr> AllPages_err = None,
        Extracted = Inr [\<lparr> usr_Name = ''bob'', usr_Password = ''x'', usr_Databases = [] \<rparr>] \<rparr>]
     = Inl (Error ''Error retrieving user bob status'')
   \<and> resourceDatabaseCreate
       \<lparr> rd_Id = '''',
         rd_attrs = \<lparr> da_name = ''app'', da_instance = ''I1'',
                      da_charset = '''', da_collate = '''' \<rparr> \<rparr>
       \<lparr> databaseInstanceClient = Inr
           \<lparr> databases_Create = (\<lambda>i opts. None),
             databases_List = (\<lambda>i. \<lparr> AllPages_err = None,
                 Extracted = Inr [\<lparr> db_Name = ''app'', db_CharSet = '''', db_Collate = '''' \<rparr>] \<rparr>),
             databases_List_poll = (\<lambda>i.
               [\<lparr> AllPages_err = None, Extracted = Inr [] \<rparr>,
                \<lparr> AllPages_err = None,
                  Extracted = Inr [\<lparr> db_Name = ''app'', db_CharSet = '''',
                                    db_Collate = '''' \<rparr>] \<rparr>]),
             databases_Delete = (\<lambda>i n. None) \<rparr> \<rparr>
     = (\<lparr> rd_Id = '''',
          rd_attrs = \<lparr> da_name = ''app'', da_instance = ''I1'',
                       da_charset = '''', da_collate = '''' \<rparr> \<rparr>,
        Some (Error
          ''Error waiting for database (Error retrieving database app status) to become ready''))"
  by (simp add: resourceDatabaseCreate_def databaseCreateConf_def DatabaseStateRefreshFunc_def
      userCreateConf_def DbUserStateRefreshFunc_def)

text \<open>
  The instance probe, under a poll of the same shape, does keep the poll alive: a
  status \<open>BUILD\<close> is handed to the poll as the pending state, and the next answer of
  the remote is read.
\<close>

lemma instance_poll_keeps_polling_on_build:
  "inst_Status i = ''BUILD'' \<Longrightarrow>
     WaitForState instanceCreateConf (Inr i # later) = WaitForState instanceCreateConf later"
  by (simp add: instanceCreateConf_def InstanceStateRefreshFunc_def)

subsection \<open>States outside the pending and target sets\<close>

lemma instance_create_pending_prefix:
  "\<forall>p \<in> set pre. inst_Status p = ''BUILD'' \<Longrightarrow>
     WaitForState instanceCreateConf (map Inr pre @ ws) = WaitForState instanceCreateConf ws"
  by (induction pre)
    (simp_all add: instanceCreateConf_def InstanceStateRefreshFunc_def)

lemma instance_delete_pending_prefix:
  "\<forall>p \<in> set pre. inst_Status p = ''ACTIVE'' \<or> inst_Status p = ''SHUTOFF'' \<Longrightarrow>
     WaitForState instanceDeleteConf (map Inr pre @ ws) = WaitForState instanceDeleteConf ws"
  by (induction pre)
    (auto simp: instanceDeleteConf_def InstanceStateRefreshFunc_def)

lemma instance_create_other_state:
  "inst_Status i \<noteq> ''BUILD'' \<Longrightarrow> inst_Status i \<noteq> ''ACTIVE'' \<Longrightarrow>
     WaitForState instanceCreateConf (Inr i # later) =
       Inl (if inst_Status i = ''error''
            then Error ''There was an error creating the instance.''
            else PollStatusError (inst_Status i))"
  by (simp add: instanceCreateConf_def InstanceStateRefreshFunc_def)

lemma instance_delete_other_state:
  "inst_Status i \<noteq> ''ACTIVE'' \<Longrightarrow> inst_Status i \<noteq> ''SHUTOFF'' \<Longrightarrow>
   inst_Status i \<noteq> ''deleted'' \<Longrightarrow>
     WaitForState instanceDeleteConf (Inr i # later) =
       Inl (if inst_Status i = ''error''
            then Error ''There was an error creating the instance.''
            else PollStatusError (inst_Status i))"
  by (simp add: instanceDeleteConf_def InstanceStateRefreshFunc_def)

lemma group_probe_fetched:
  "DbConfigGroupStateRefreshFunc (configurations_Extract (Inr p)) =
     (Some (pl_config p), ''ACTIVE'', None)"
  by (simp add: DbConfigGroupStateRefreshFunc_def configurations_Extract_def)

lemma group_create_poll_fetched:
  "WaitForState configGroupCreateConf (Inr p # later) = Inr (Some (pl_config p), ''ACTIVE'')"
  by (simp add: configGroupCreateConf_def group_probe_fetched)

lemma group_delete_poll_fetched:
  "WaitForState configGroupDeleteConf (Inr p # later) = WaitForState configGroupDeleteConf later"
  by (simp add: configGroupDeleteConf_def group_probe_fetched)

text \<open>
  C5, as stated, fails for the configuration group: the remote reports the group with
  the status \<open>ERROR\<close>, the probe answers \<open>ACTIVE\<close>, and the create poll succeeds on
  that tick.
\<close>

theorem error_status_fails_poll_counterexample:
  "WaitForState configGroupCreateConf
     [Inr \<lparr> pl_status = ''ERROR'',
            pl_config = \<lparr> cfg_Created = '''', cfg_Updated = '''', cfg_DatastoreName = ''mysql'',
                          cfg_DatastoreVersionID = '''', cfg_DatastoreVersionName = ''5.6'',
                          cfg_Description = '''', cfg_ID = ''C1'', cfg_Name = ''g'',
                          cfg_Values = Map.empty \<rparr> \<rparr>]
     = Inr (Some \<lparr> cfg_Created = '''', cfg_Updated = '''', cfg_DatastoreName = ''mysql'',
                    cfg_DatastoreVersionID = '''', cfg_DatastoreVersionName = ''5.6'',
                    cfg_Description = '''', cfg_ID = ''C1'', cfg_Name = ''g'',
                    cfg_Values = Map.empty \<rparr>,
            ''ACTIVE'')"
  by (simp add: configGroupCreateConf_def DbConfigGroupStateRefreshFunc_def
      configurations_Extract_def)

text \<open>
  C5, amended. For the instance, at any tick of the create poll or of the delete poll
  (the ticks before it having shown pending states), a reported status outside the
  pending and the target set ends the poll on that tick with an error, whatever the
  remote would answer later: the error of the probe for the status \<open>error\<close>, the
  unexpected-state error for any other such status, \<open>ERROR\<close> among them. The probe of
  the configuration group reads no status: a group that is fetched is \<open>ACTIVE\<close>, which
  ends the create poll with success and keeps the delete poll going.
\<close>

theorem status_outside_sets_fails_instance_poll:
  "((\<forall>p \<in> set pre. inst_Status p = ''BUILD'') \<longrightarrow>
    inst_Status i \<noteq> ''BUILD'' \<longrightarrow> inst_Status i \<noteq> ''ACTIVE'' \<longrightarrow>
      WaitForState instanceCreateConf (map Inr pre @ Inr i # later) =
        Inl (if inst_Status i = ''error''
             then Error ''There was an error creating the instance.''
             else PollStatusError (inst_Status i)))
   \<and> ((\<forall>p \<in> set pre. inst_Status p = ''ACTIVE'' \<or> inst_Status p = ''SHUTOFF'') \<longrightarrow>
    inst_Status i \<noteq> ''ACTIVE'' \<longrightarrow> inst_Status i \<noteq> ''SHUTOFF'' \<longrightarrow>
    inst_Status i \<noteq> ''deleted'' \<longrightarrow>
      WaitForState instanceDeleteConf (map Inr pre @ Inr i # later) =
        Inl (if inst_Status i = ''error''
             then Error ''There was an error creating the instance.''
             else PollStatusError (inst_Status i)))
   \<and> WaitForState configGroupCreateConf (Inr \<lparr> pl_status = st, pl_config = c \<rparr> # later') =
       Inr (Some c, ''ACTIVE'')
   \<and> WaitForState configGroupDeleteConf (Inr \<lparr> pl_status = st, pl_config = c \<rparr> # later') =
       WaitForState configGroupDeleteConf later'"
proof (intro conjI impI)
  assume "\<forall>p \<in> set pre. inst_Status p = ''BUILD''"
    and "inst_Status i \<noteq> ''BUILD''" and "inst_Status i \<noteq> ''ACTIVE''"
  then show "WaitForState instanceCreateConf (map Inr pre @ Inr i # later) =
        Inl (if inst_Status i = ''error''
             then Error ''There was an error creating the instance.''
             else PollStatusError (inst_Status i))"
    by (simp add: instance_create_pending_prefix instance_create_other_state
        del: WaitForState.simps)
next
  assume "\<forall>p \<in> set pre. inst_Status p = ''ACTIVE'' \<or> inst_Status p = ''SHUTOFF''"
    and "inst_Status i \<noteq> ''ACTIVE''" and "inst_Status i \<noteq> ''SHUTOFF''"
    and "inst_Status i \<noteq> ''deleted''"
  then show "WaitForState instanceDeleteConf (map Inr pre @ Inr i # later) =
        Inl (if inst_Status i = ''error''
             then Error ''There was an error creating the instance.''
             else PollStatusError (inst_Status i))"
    by (simp add: instance_delete_pending_prefix instance_delete_other_state
        del: WaitForState.simps)
next
  show "WaitForState configGroupCreateConf (Inr \<lparr> pl_status = st, pl_config = c \<rparr> # later') =
       Inr (Some c, ''ACTIVE'')"
    by (simp only: group_create_poll_fetched) simp
next
  show "WaitForState configGroupDeleteConf (Inr \<lparr> pl_status = st, pl_config = c \<rparr> # later') =
       WaitForState configGroupDeleteConf later'"
    by (simp only: group_delete_poll_fetched)
qed

theorem status_outside_sets_fails_instance_poll_witness:
  "WaitForState instanceCreateConf
     [Inr \<lparr> inst_ID = ''I1'', inst_Name = ''db'', inst_Status = ''BUILD'', inst_Flavor = ''2'',
            inst_Datastore = \<lparr> ds_version = ''5.6'', ds_type = ''mysql'' \<rparr> \<rparr>,
      Inr \<lparr> inst_ID = ''I1'', inst_Name = ''db'', inst_Status = ''ERROR'', inst_Flavor = ''2'',
            inst_Datastore = \<lparr> ds_version = ''5.6'', ds_type = ''mysql'' \<rparr> \<rparr>,
      Inr \<lparr> inst_ID = ''I1'', inst_Name = ''db'', inst_Status = ''ACTIVE'', inst_Flavor = ''2'',
            inst_Datastore = \<lparr> ds_version = ''5.6'', ds_type = ''mysql'' \<rparr> \<rparr>]
     = Inl (PollStatusError ''ERROR'')
   \<and> WaitForState instanceDeleteConf
     [Inr \<lparr> inst_ID = ''I1'', inst_Name = ''db'', inst_Status = ''ACTIVE'', inst_Flavor = ''2'',
            inst_Datastore = \<lparr> ds_version = ''5.6'', ds_type = ''mysql'' \<rparr> \<rparr>,
      Inr \<lparr> inst_ID = ''I1'', inst_Name = ''db'', inst_Status = ''error'', inst_Flavor = ''2'',
            inst_Datastore = \<lparr> ds_version = ''5.6'', ds_type = ''mysql'' \<rparr> \<rparr>,
      Inl ErrDefault404]
     = Inl (Error ''There was an error creating the instance.'')"
proof -
  let ?ds = "\<lparr> ds_version = ''5.6'', ds_type = ''mysql'' \<rparr>"
  let ?build = "\<lparr> inst_ID = ''I1'', inst_Name = ''db'', inst_Status = ''BUILD'',
                  inst_Flavor = ''2'', inst_Datastore = ?ds \<rparr>"
  let ?upper = "\<lparr> inst_ID = ''I1'', inst_Name = ''db'', inst_Status = ''ERROR'',
                  inst_Flavor = ''2'', inst_Datastore = ?ds \<rparr>"
  let ?active = "\<lparr> inst_ID = ''I1'', inst_Name = ''db'', inst_Status = ''ACTIVE'',
                   inst_Flavor = ''2'', inst_Datastore = ?ds \<rparr>"
  let ?lower = "\<lparr> inst_ID = ''I1'', inst_Name = ''db'', inst_Status = ''error'',
                  inst_Flavor = ''2'', inst_Datastore = ?ds \<rparr>"
  have creating: "WaitForState instanceCreateConf (map Inr [?build] @ Inr ?upper # [Inr ?active])
      = Inl (PollStatusError ''ERROR'')"
    using status_outside_sets_fails_instance_poll
      [where pre = "[?build]" and i = ?upper and later = "[Inr ?active]", THEN conjunct1]
    by (simp del: WaitForState.simps)
  have deleting: "WaitForState instanceDeleteConf
        (map Inr [?active] @ Inr ?lower # [Inl ErrDefault404])
      = Inl (Error ''There was an error creating the instance.'')"
    using status_outside_sets_fails_instance_poll
      [where pre = "[?active]" and i = ?lower and later = "[Inl ErrDefault404]",
        THEN conjunct2, THEN conjunct1]
    by (simp del: WaitForState.simps)
  from creating deleting show ?thesis by (simp del: WaitForState.simps)
qed

subsection \<open>The probe of the configuration group\<close>

lemma group_probe_state:
  "fst (snd (DbConfigGroupStateRefreshFunc got)) = ''ACTIVE''
   \<or> fst (snd (DbConfigGroupStateRefreshFunc got)) = ''DELETED''
   \<or> fst (snd (DbConfigGroupStateRefreshFunc got)) = ''''"
  by (simp add: DbConfigGroupStateRefreshFunc_def split: sum.split)

text \<open>
  C10. \<open>DbConfigGroupStateRefreshFunc\<close> answers \<open>ACTIVE\<close> for every group that is
  fetched, whatever status the remote reports with it, and the absent sentinel for the
  404 error; so the create poll (pending \<open>BUILD\<close>, target \<open>ACTIVE\<close>) succeeds on the
  first probe that fetches the group, and the state the probe hands to the poll is
  never \<open>BUILD\<close>, \<open>SHUTOFF\<close> or an error status.
\<close>

theorem config_group_probe_always_active:
  "DbConfigGroupStateRefreshFunc (Inr i) = (Some i, ''ACTIVE'', None)
   \<and> Refresh configGroupCreateConf (Inr \<lparr> pl_status = st, pl_config = i \<rparr>)
       = (Some i, ''ACTIVE'', None)
   \<and> DbConfigGroupStateRefreshFunc (Inl ErrDefault404) = (None, ''DELETED'', None)
   \<and> Refresh configGroupCreateConf (Inl ErrDefault404) = (None, ''DELETED'', None)
   \<and> Pending configGroupCreateConf = [''BUILD'']
   \<and> Target configGroupCreateConf = [''ACTIVE'']
   \<and> WaitForState configGroupCreateConf (Inr \<lparr> pl_status = st, pl_config = i \<rparr> # later)
       = Inr (Some i, ''ACTIVE'')
   \<and> fst (snd (Refresh configGroupCreateConf w))
       \<notin> {''BUILD'', ''SHUTOFF'', ''ERROR'', ''error''}"
proof -
  have probe: "fst (snd (Refresh configGroupCreateConf w)) = ''ACTIVE''
      \<or> fst (snd (Refresh configGroupCreateConf w)) = ''DELETED''
      \<or> fst (snd (Refresh configGroupCreateConf w)) = ''''"
    using group_probe_state [of "configurations_Extract w"]
    by (simp add: configGroupCreateConf_def)
  have never: "fst (snd (Refresh configGroupCreateConf w))
       \<notin> {''BUILD'', ''SHUTOFF'', ''ERROR'', ''error''}"
    using probe by auto
  have poll: "WaitForState configGroupCreateConf
        (Inr \<lparr> pl_status = st, pl_config = i \<rparr> # later) = Inr (Some i, ''ACTIVE'')"
    by (simp only: group_create_poll_fetched) simp
  show ?thesis
    using never poll
    by (simp add: DbConfigGroupStateRefreshFunc_def configGroupCreateConf_def
        configurations_Extract_def del: WaitForState.simps)
qed

theorem config_group_probe_always_active_witness:
  "WaitForState configGroupCreateConf
     [Inr \<lparr> pl_status = ''BUILD'',
            pl_config = \<lparr> cfg_Created = '''', cfg_Updated = '''', cfg_DatastoreName = ''mysql'',
                          cfg_DatastoreVersionID = '''', cfg_DatastoreVersionName = ''5.6'',
                          cfg_Description = '''', cfg_ID = ''C1'', cfg_Name = ''g'',
                          cfg_Values = Map.empty \<rparr> \<rparr>,
      Inl ErrDefault404]
     = Inr (Some \<lparr> cfg_Created = '''', cfg_Updated = '''', cfg_DatastoreName = ''mysql'',
                    cfg_DatastoreVersionID = '''', cfg_DatastoreVersionName = ''5.6'',
                    cfg_Description = '''', cfg_ID = ''C1'', cfg_Name = ''g'',
                    cfg_Values = Map.empty \<rparr>,
            ''ACTIVE'')"
  using config_group_probe_always_active
    [where st = "''BUILD''" and later = "[Inl ErrDefault404]"
       and i = "\<lparr> cfg_Created = '''', cfg_Updated = '''', cfg_DatastoreName = ''mysql'',
                  cfg_DatastoreVersionID = '''', cfg_DatastoreVersionName = ''5.6'',
                  cfg_Description = '''', cfg_ID = ''C1'', cfg_Name = ''g'',
                  cfg_Values = Map.empty \<rparr>"]
  by blast

subsection \<open>Delete on an object that is already absent\<close>

text \<open>
  C4 at a failing input. The object is gone: every probe answers 404, and the remote
  answers the delete request itself with 404. Delete should end without an error, the
  absence being what it is after. \<open>resourceDatabaseInstanceDelete\<close> and
  \<open>resourceDbConfigGroupDelete\<close> return the 404 of the delete request as an error,
  before any poll, and keep the identifier.
\<close>

theorem delete_of_absent_object_fails:
  "resourceDatabaseInstanceDelete
     \<lparr> rd_Id = ''I1'',
       rd_attrs = \<lparr> ia_name = ''db'', ia_flavor_id = ''2'', ia_size = 2,
                    ia_datastore = [\<lparr> ds_version = ''5.6'', ds_type = ''mysql'' \<rparr>],
                    ia_network = [], ia_database = [], ia_user = [] \<rparr> \<rparr>
     \<lparr> databaseInstanceClient = Inr
         \<lparr> instances_Create = (\<lambda>opts. Inl ErrDefault404),
           instances_Get = (\<lambda>i. Inl ErrDefault404),
           instances_Get_poll = (\<lambda>i. [Inl ErrDefault404, Inl ErrDefault404]),
           instances_Delete = (\<lambda>i. Some ErrDefault404) \<rparr> \<rparr>
   = (\<lparr> rd_Id = ''I1'',
        rd_attrs = \<lparr> ia_name = ''db'', ia_flavor_id = ''2'', ia_size = 2,
                     ia_datastore = [\<lparr> ds_version = ''5.6'', ds_type = ''mysql'' \<rparr>],
                     ia_network = [], ia_database = [], ia_user = [] \<rparr> \<rparr>,
      Some (Error ''Error deleting cloud database instance: Resource not found''))
   \<and> resourceDbConfigGroupDelete
     \<lparr> rd_Id = ''C1'',
       rd_attrs = \<lparr> cga_name = ''g'', cga_description = '''', cga_datastore = [],
                    cga_configuration = [] \<rparr> \<rparr>
     \<lparr> databaseInstanceClient = Inr
         \<lparr> configurations_Create = (\<lambda>opts. Inl ErrDefault404),
           configurations_Get = (\<lambda>i. Inl ErrDefault404),
           configurations_Get_poll = (\<lambda>i. [Inl ErrDefault404, Inl ErrDefault404]),
           configurations_Delete = (\<lambda>i. Some ErrDefault404) \<rparr> \<rparr>
   = (\<lparr> rd_Id = ''C1'',
        rd_attrs = \<lparr> cga_name = ''g'', cga_description = '''', cga_datastore = [],
                     cga_configuration = [] \<rparr> \<rparr>,
      Some (Error ''Error deleting cloud configuration: Resource not found''))"
  by (simp add: resourceDatabaseInstanceDelete_def resourceDbConfigGroupDelete_def)

text \<open>
  The rest of the Delete paths, for any input. A rejected delete request of an instance
  or of a configuration group is returned as an error, with the resource data
  untouched; once the request is accepted, a first probe that answers 404 ends Delete
  without an error and with the identifier cleared. The database and the user tolerate
  a child that is not listed: when the listing of the parent succeeds, their Delete
  ends without an error, the child being listed or not. When \<open>AllPages\<close> fails, their
  Delete panics.
\<close>

lemma instance_delete_returns_rejection:
  "databaseInstanceClient meta = Inr client \<Longrightarrow>
   instances_Delete client (rd_Id d) = Some err \<Longrightarrow>
     resourceDatabaseInstanceDelete d meta =
       (d, Some (Error (''Error deleting cloud database instance: '' @ Error_msg err)))"
  by (simp add: resourceDatabaseInstanceDelete_def)

lemma group_delete_returns_rejection:
  "databaseInstanceClient meta = Inr client \<Longrightarrow>
   configurations_Delete client (rd_Id d) = Some err \<Longrightarrow>
     resourceDbConfigGroupDelete d meta =
       (d, Some (Error (''Error deleting cloud configuration: '' @ Error_msg err)))"
  by (simp add: resourceDbConfigGroupDelete_def)

lemma instance_delete_accepted_and_absent:
  "databaseInstanceClient meta = Inr client \<Longrightarrow>
   instances_Delete client (rd_Id d) = None \<Longrightarrow>
   instances_Get_poll client (rd_Id d) = Inl ErrDefault404 # later \<Longrightarrow>
     resourceDatabaseInstanceDelete d meta = (SetId '''' d, None)"
  by (simp add: resourceDatabaseInstanceDelete_def instanceDeleteConf_def
      InstanceStateRefreshFunc_def)

lemma group_delete_accepted_and_absent:
  "databaseInstanceClient meta = Inr client \<Longrightarrow>
   configurations_Delete client (rd_Id d) = None \<Longrightarrow>
   configurations_Get_poll client (rd_Id d) = Inl ErrDefault404 # later \<Longrightarrow>
     resourceDbConfigGroupDelete d meta = (SetId '''' d, None)"
  by (simp add: resourceDbConfigGroupDelete_def configGroupDeleteConf_def
      DbConfigGroupStateRefreshFunc_def configurations_Extract_def)

lemma database_delete_tolerates_absence:
  "databaseInstanceClient meta = Inr client \<Longrightarrow>
   databases_List client (rd_Id d) = \<lparr> AllPages_err = None, Extracted = Inr allDatabases \<rparr> \<Longrightarrow>
     resourceDatabaseDelete d meta = (SetId '''' d, None)"
  by (simp add: resourceDatabaseDelete_def Let_def)

lemma user_delete_tolerates_absence:
  "databaseInstanceClient meta = Inr client \<Longrightarrow>
   users_List client (rd_Id d) = \<lparr> AllPages_err = None, Extracted = Inr allUsers \<rparr> \<Longrightarrow>
     resourceDbUserDelete d meta = (SetId '''' d, None)"
  by (simp add: resourceDbUserDelete_def Let_def)

lemma database_delete_panics_without_pages:
  "databaseInstanceClient meta = Inr client \<Longrightarrow>
   AllPages_err (databases_List client (rd_Id d)) = Some err \<Longrightarrow>
     resourceDatabaseDelete d meta = (d, Some (Panic nil_page_assertion))"
  by (simp add: resourceDatabaseDelete_def Let_def)

lemma user_delete_panics_without_pages:
  "databaseInstanceClient meta = Inr client \<Longrightarrow>
   AllPages_err (users_List client (rd_Id d)) = Some err \<Longrightarrow>
     resourceDbUserDelete d meta = (d, Some (Panic nil_page_assertion))"
  by (simp add: resourceDbUserDelete_def Let_def)

subsection \<open>The identifier persisted by Create\<close>








subsection \<open>A rejected create request\<close>

text \<open>
  C2 at a failing input. The remote rejects the request to create the database \<open>app\<close>
  on \<open>I1\<close> (a database of that name is there already, and the listing shows it).
  \<open>resourceDatabaseCreate\<close> never reads the answer of \<open>databases.Create\<close>: it polls,
  finds the name listed, stores the identifier and returns no error. The instance and
  the configuration group test that answer and return it inside their own message.
\<close>

theorem database_create_drops_rejection:
  "resourceDatabaseCreate
     \<lparr> rd_Id = '''',
       rd_attrs = \<lparr> da_name = ''app'', da_instance = ''I1'', da_charset = ''utf8'',
                    da_collate = '''' \<rparr> \<rparr>
     \<lparr> databaseInstanceClient = Inr
         \<lparr> databases_Create = (\<lambda>i opts. Some (Error ''Bad request: database exists'')),
           databases_List = (\<lambda>i. \<lparr> AllPages_err = None,
               Extracted = Inr [\<lparr> db_Name = ''app'', db_CharSet = ''latin1'',
                                 db_Collate = '''' \<rparr>] \<rparr>),
           databases_List_poll = (\<lambda>i. [\<lparr> AllPages_err = None,
               Extracted = Inr [\<lparr> db_Name = ''app'', db_CharSet = ''latin1'',
                                 db_Collate = '''' \<rparr>] \<rparr>]),
           databases_Delete = (\<lambda>i n. None) \<rparr> \<rparr>
   = (\<lparr> rd_Id = ''I1'',
        rd_attrs = \<lparr> da_name = ''app'', da_instance = ''I1'', da_charset = ''latin1'',
                     da_collate = '''' \<rparr> \<rparr>, None)"
  by (simp add: resourceDatabaseCreate_def resourceDatabaseRead_def databaseCreateConf_def
      DatabaseStateRefreshFunc_def SetId_def)

subsection \<open>Clearing the identifier on Delete\<close>

text \<open>
  C3 at a failing input. The database \<open>app\<close> is listed on \<open>I1\<close> and the remote rejects
  the delete request. \<open>resourceDatabaseDelete\<close> never reads that answer and runs no
  poll: it clears the identifier and returns no error while the database is still
  there. The instance and the configuration group clear the identifier only after
  their delete poll has seen the absent state.
\<close>

theorem database_delete_clears_id_unconfirmed:
  "resourceDatabaseDelete
     \<lparr> rd_Id = ''I1'',
       rd_attrs = \<lparr> da_name = ''app'', da_instance = ''I1'', da_charset = '''',
                    da_collate = '''' \<rparr> \<rparr>
     \<lparr> databaseInstanceClient = Inr
         \<lparr> databases_Create = (\<lambda>i opts. None),
           databases_List = (\<lambda>i. \<lparr> AllPages_err = None,
               Extracted = Inr [\<lparr> db_Name = ''app'', db_CharSet = '''', db_Collate = '''' \<rparr>] \<rparr>),
           databases_List_poll = (\<lambda>i. [\<lparr> AllPages_err = None,
               Extracted = Inr [\<lparr> db_Name = ''app'', db_CharSet = '''', db_Collate = '''' \<rparr>] \<rparr>]),
           databases_Delete = (\<lambda>i n. Some (Error ''Internal Server Error'')) \<rparr> \<rparr>
   = (\<lparr> rd_Id = '''',
        rd_attrs = \<lparr> da_name = ''app'', da_instance = ''I1'', da_charset = '''',
                     da_collate = '''' \<rparr> \<rparr>, None)"
  by (simp add: resourceDatabaseDelete_def SetId_def)

subsection \<open>Read of an object that has disappeared\<close>

text \<open>
  C6 at a failing input. The database \<open>app\<close> has been dropped out-of-band: the parent
  \<open>I1\<close> lists no database. The search loop of \<open>resourceDatabaseRead\<close> has no branch
  for a name that is not listed: Read returns no error and leaves the identifier and
  the attributes as they were. The instance and the configuration group hand a failed
  \<open>Get\<close> to \<open>CheckDeleted\<close>.
\<close>

theorem database_read_misses_disappearance:
  "resourceDatabaseRead
     \<lparr> rd_Id = ''I1'',
       rd_attrs = \<lparr> da_name = ''app'', da_instance = ''I1'', da_charset = ''utf8'',
                    da_collate = '''' \<rparr> \<rparr>
     \<lparr> databaseInstanceClient = Inr
         \<lparr> databases_Create = (\<lambda>i opts. None),
           databases_List = (\<lambda>i. \<lparr> AllPages_err = None, Extracted = Inr [] \<rparr>),
           databases_List_poll = (\<lambda>i. []),
           databases_Delete = (\<lambda>i n. None) \<rparr> \<rparr>
   = (\<lparr> rd_Id = ''I1'',
        rd_attrs = \<lparr> da_name = ''app'', da_instance = ''I1'', da_charset = ''utf8'',
                     da_collate = '''' \<rparr> \<rparr>, None)"
  by (simp add: resourceDatabaseRead_def)

subsection \<open>Nested lists of the instance request\<close>

text \<open>
  C9 at a failing input. Two networks, two databases and two users are declared. The
  request carries the first of each only: every one of the three lists is read at index
  0. The databases of that first user, which go through the loop of \<open>getDatabases\<close>,
  are all there.
\<close>

theorem instance_request_keeps_first_element_only:
  "instanceCreateOpts
     \<lparr> ia_name = ''db'', ia_flavor_id = ''2'', ia_size = 2,
       ia_datastore = [\<lparr> ds_version = ''5.6'', ds_type = ''mysql'' \<rparr>],
       ia_network = [\<lparr> nb_uuid = ''net-a'', nb_port = '''', nb_fixed_ip_v4 = '''',
                        nb_fixed_ip_v6 = '''' \<rparr>,
                     \<lparr> nb_uuid = ''net-b'', nb_port = '''', nb_fixed_ip_v4 = '''',
                        nb_fixed_ip_v6 = '''' \<rparr>],
       ia_database = [\<lparr> dbb_name = ''app'', dbb_charset = '''', dbb_collate = '''' \<rparr>,
                      \<lparr> dbb_name = ''logs'', dbb_charset = '''', dbb_collate = '''' \<rparr>],
       ia_user = [\<lparr> ub_name = ''alice'', ub_password = ''x'', ub_host = '''',
                     ub_databases = [''app'', ''logs''] \<rparr>,
                  \<lparr> ub_name = ''bob'', ub_password = ''y'', ub_host = '''',
                     ub_databases = [''logs''] \<rparr>] \<rparr>
   = \<lparr> io_FlavorRef = ''2'', io_Name = ''db'', io_Size = 2,
       io_Datastore = \<lparr> ids_Version = ''5.6'', ids_Type = ''mysql'' \<rparr>,
       io_Networks = [\<lparr> net_UUID = ''net-a'', net_Port = '''', net_V4FixedIP = '''',
                         net_V6FixedIP = '''' \<rparr>],
       io_Databases = [\<lparr> dbo_Name = ''app'', dbo_CharSet = '''', dbo_Collate = '''' \<rparr>],
       io_Users = [\<lparr> uo_Name = ''alice'', uo_Password = ''x'',
                      uo_Databases = [\<lparr> dbo_Name = ''app'', dbo_CharSet = '''',
                                          dbo_Collate = '''' \<rparr>,
                                       \<lparr> dbo_Name = ''logs'', dbo_CharSet = '''',
                                          dbo_Collate = '''' \<rparr>],
                      uo_Host = '''' \<rparr>] \<rparr>"
  by (simp add: instanceCreateOpts_def)

subsection \<open>What the instance and the configuration group do on the same paths\<close>

text \<open>
  The instance and the configuration group test the answer to the create request and to
  the delete request, poll before they clear the identifier, and hand a failed \<open>Get\<close>
  of Read to \<open>CheckDeleted\<close>. These lemmas record that behaviour next to the
  evaluations of the database paths above.
\<close>

lemma instance_create_returns_rejection:
  "databaseInstanceClient meta = Inr client \<Longrightarrow>
   instances_Create client (instanceCreateOpts (rd_attrs d)) = Inl err \<Longrightarrow>
     resourceDatabaseInstanceCreate d meta =
       (d, Some (Error (''Error creating cloud database instance: '' @ Error_msg err)))"
  by (simp add: resourceDatabaseInstanceCreate_def)

lemma group_create_returns_rejection:
  "databaseInstanceClient meta = Inr client \<Longrightarrow>
   configurations_Create client (configGroupCreateOpts (rd_attrs d)) = Inl err \<Longrightarrow>
     resourceDbConfigGroupCreate d meta =
       (d, Some (Error (''Error creating cloud database configuration: '' @ Error_msg err)))"
  by (simp add: resourceDbConfigGroupCreate_def)

lemma instance_delete_poll_success:
  "WaitForState instanceDeleteConf ws = Inr (res, st) \<Longrightarrow>
     st = ''deleted'' \<and>
     (Inl ErrDefault404 \<in> set ws \<or> (\<exists>i. Inr i \<in> set ws \<and> inst_Status i = ''deleted''))"
proof (induction ws)
  case Nil
  then show ?case by simp
next
  case (Cons w ws)
  show ?case
  proof (cases w)
    case (Inl err)
    with Cons.prems show ?thesis
      by (auto simp: instanceDeleteConf_def InstanceStateRefreshFunc_def absent_sentinel_def
          split: if_splits)
  next
    case (Inr i)
    show ?thesis
    proof (cases "inst_Status i = ''ACTIVE'' \<or> inst_Status i = ''SHUTOFF''")
      case True
      with Inr Cons.prems have "WaitForState instanceDeleteConf ws = Inr (res, st)"
        by (auto simp: instanceDeleteConf_def InstanceStateRefreshFunc_def)
      from Cons.IH [OF this] show ?thesis by auto
    next
      case False
      with Inr Cons.prems show ?thesis
        by (auto simp: instanceDeleteConf_def InstanceStateRefreshFunc_def split: if_splits)
    qed
  qed
qed

lemma instance_delete_clears_after_poll:
  "databaseInstanceClient meta = Inr client \<Longrightarrow>
   resourceDatabaseInstanceDelete d meta = (d', None) \<Longrightarrow>
     instances_Delete client (rd_Id d) = None \<and>
     (\<exists>res. WaitForState instanceDeleteConf (instances_Get_poll client (rd_Id d))
              = Inr (res, ''deleted'')) \<and>
     d' = SetId '''' d"
proof -
  assume client: "databaseInstanceClient meta = Inr client"
    and deleted: "resourceDatabaseInstanceDelete d meta = (d', None)"
  from deleted client have accepted: "instances_Delete client (rd_Id d) = None"
    by (auto simp: resourceDatabaseInstanceDelete_def split: option.splits)
  from deleted client accepted obtain res st where
    poll: "WaitForState instanceDeleteConf (instances_Get_poll client (rd_Id d)) = Inr (res, st)"
    and cleared: "d' = SetId '''' d"
    by (auto simp: resourceDatabaseInstanceDelete_def Let_def split: sum.splits)
  from instance_delete_poll_success [OF poll] have "st = ''deleted''" by simp
  with accepted poll cleared show ?thesis by blast
qed

lemma instance_delete_keeps_id_on_error:
  "resourceDatabaseInstanceDelete d meta = (d', Some err) \<Longrightarrow> d' = d"
  by (auto simp: resourceDatabaseInstanceDelete_def Let_def split: sum.splits option.splits)

lemma group_delete_keeps_id_on_error:
  "resourceDbConfigGroupDelete d meta = (d', Some err) \<Longrightarrow> d' = d"
  by (auto simp: resourceDbConfigGroupDelete_def Let_def split: sum.splits option.splits)

lemma instance_read_drops_missing:
  "databaseInstanceClient meta = Inr client \<Longrightarrow>
   instances_Get client (rd_Id d) = Inl ErrDefault404 \<Longrightarrow>
     resourceDatabaseInstanceRead d meta = (SetId '''' d, None)"
  by (simp add: resourceDatabaseInstanceRead_def CheckDeleted_def)

lemma group_read_drops_missing:
  "databaseInstanceClient meta = Inr client \<Longrightarrow>
   configurations_Get client (rd_Id d) = Inl ErrDefault404 \<Longrightarrow>
     resourceDbConfigGroupRead d meta = (SetId '''' d, None)"
  by (simp add: resourceDbConfigGroupRead_def CheckDeleted_def configurations_Extract_def)

lemma database_create_never_reads_create_answer:
  "databaseInstanceClient meta = Inr client \<Longrightarrow>
   databaseInstanceClient meta' = Inr (client\<lparr> databases_Create := other \<rparr>) \<Longrightarrow>
     fst (resourceDatabaseCreate d meta) = fst (resourceDatabaseCreate d meta')
     \<and> snd (resourceDatabaseCreate d meta) = snd (resourceDatabaseCreate d meta')"
  by (simp add: resourceDatabaseCreate_def resourceDatabaseRead_def Let_def
      split: sum.split)

end
